theory Spec2Isabelle
  imports Complex_Main
begin

section \<open>The ECG filter module: data model\<close>

text \<open>
  The module \<^verbatim>\<open>src/ecg/ecg_filters.py\<close> has three filter stages
  (\<^verbatim>\<open>apply_ac_filter\<close>, \<^verbatim>\<open>apply_emg_filter\<close>, \<^verbatim>\<open>apply_dft_filter\<close>) and the
  orchestrator \<^verbatim>\<open>apply_ecg_filters\<close>.

  A signal is a numpy array, an object with an identity: a stage returns either the very
  object it received (\<^verbatim>\<open>return signal\<close>) or a new array built by \<^verbatim>\<open>filtfilt\<close>, and
  the orchestrator copies its argument (\<^verbatim>\<open>signal.copy()\<close>). The model therefore has an
  object store: an address is an index into the list of arrays allocated so far, and a
  new array goes to the end of that list. The messages written by \<^verbatim>\<open>print\<close> are kept
  in the order they are written.

  Exceptions are values: a computation returns \<open>Inl e\<close> when it raises \<open>e\<close> (some
  subclass of \<^verbatim>\<open>Exception\<close>). An array is one-dimensional and a selector is an
  \<^verbatim>\<open>Optional[str]\<close>, as the signatures say.
\<close>

type_synonym addr = nat
type_synonym buffer = "real list"
type_synonym coeffs = "real list \<times> real list"

datatype exn = ZeroDivisionError | TypeError | ValueError | UnicodeEncodeError | LibError string

datatype stage = AC | EMG | DFT

subsection \<open>Python floats\<close>

text \<open>
  A Python float is a finite number, an infinity or NaN. The sampling rate, the selector's
  frequency and their quotients are floats. The sign of a zero is not kept: the module
  only compares these values and divides by them, and both zeros compare equal and both
  raise as divisors.
\<close>

datatype pyfloat = Fin real | PInf | MInf | NaN

text \<open>The comparison \<^verbatim>\<open>a <= b\<close>; \<^verbatim>\<open>a >= b\<close> is \<open>fl_le b a\<close>. NaN compares false.\<close>

fun fl_le :: "pyfloat \<Rightarrow> pyfloat \<Rightarrow> bool" where
  "fl_le NaN b = False"
| "fl_le a NaN = False"
| "fl_le MInf b = True"
| "fl_le a PInf = True"
| "fl_le (Fin x) (Fin y) = (x \<le> y)"
| "fl_le a b = False"

text \<open>
  The quotient of two floats for a divisor that is not zero. The quotient of two finite
  numbers is rounded to a float by \<open>rnd\<close> (it may underflow to zero or overflow to an
  infinity).
\<close>

fun fl_div :: "(real \<Rightarrow> pyfloat) \<Rightarrow> pyfloat \<Rightarrow> pyfloat \<Rightarrow> pyfloat" where
  "fl_div rnd NaN b = NaN"
| "fl_div rnd a NaN = NaN"
| "fl_div rnd (Fin x) (Fin y) = rnd (x / y)"
| "fl_div rnd (Fin x) b = Fin 0"
| "fl_div rnd PInf (Fin y) = (if 0 < y then PInf else MInf)"
| "fl_div rnd MInf (Fin y) = (if 0 < y then MInf else PInf)"
| "fl_div rnd a b = NaN"

subsection \<open>Messages, the store and the imported functions\<close>

text \<open>
  The two messages a stage prints, by their parts. \<open>Invalid_frequency st f rate\<close> is
  the warning of stage \<open>st\<close> that the frequency \<open>f\<close> is invalid for the sampling
  rate \<open>rate\<close>; \<open>Error_applying st sel e\<close> is the error message of stage \<open>st\<close>
  with the selector \<open>sel\<close> and the exception \<open>e\<close>. Both begin with a character
  outside ASCII (a warning sign, a cross mark).
\<close>

datatype diag =
    Invalid_frequency stage pyfloat pyfloat
  | Error_applying stage "string option" exn

text \<open>
  \<open>rejects w d\<close> is what writing the message \<open>d\<close> to \<^verbatim>\<open>sys.stdout\<close> raises, if
  anything. On a stream that cannot encode the message (ASCII, cp1252), \<^verbatim>\<open>print\<close>
  raises \<^verbatim>\<open>UnicodeEncodeError\<close> and writes nothing; the launcher \<^verbatim>\<open>main.py\<close>
  replaces the stream for this reason on Windows.
\<close>

record world =
  heap :: "buffer list"
  stdout :: "diag list"
  rejects :: "diag \<Rightarrow> exn option"

text \<open>
  What the module uses and does not define: the builtin \<^verbatim>\<open>float\<close> on a string, the
  rounding of float division, and \<^verbatim>\<open>iirnotch\<close>, \<^verbatim>\<open>butter\<close>, \<^verbatim>\<open>filtfilt\<close> of
  \<^verbatim>\<open>scipy.signal\<close>. They are parameters of the model. Each is a function of its
  arguments' values that returns a value or raises; \<^verbatim>\<open>filtfilt\<close> returns a new array
  and leaves its input alone.
\<close>

record pylib =
  float_of_str :: "string \<Rightarrow> exn + pyfloat"
  round_double :: "real \<Rightarrow> pyfloat"
  iirnotch :: "pyfloat \<Rightarrow> pyfloat \<Rightarrow> exn + coeffs"
  butter :: "nat \<Rightarrow> pyfloat \<Rightarrow> string \<Rightarrow> exn + coeffs"
  filtfilt :: "real list \<Rightarrow> real list \<Rightarrow> buffer \<Rightarrow> exn + buffer"

text \<open>The argument of the orchestrator: \<^verbatim>\<open>Union[np.ndarray, list]\<close>.\<close>

datatype signal_arg = Ndarray addr | Pylist "real list"

definition deref :: "world \<Rightarrow> addr \<Rightarrow> buffer" where
  "deref w r = heap w ! r"

definition alloc :: "buffer \<Rightarrow> world \<Rightarrow> addr \<times> world" where
  "alloc xs w = (length (heap w), w\<lparr>heap := heap w @ [xs]\<rparr>)"

text \<open>\<^verbatim>\<open>print\<close> of one of the two messages.\<close>

definition print :: "diag \<Rightarrow> world \<Rightarrow> exn + world" where
  "print d w =
     (case rejects w d of None \<Rightarrow> Inr (w\<lparr>stdout := stdout w @ [d]\<rparr>) | Some e \<Rightarrow> Inl e)"

text \<open>\<^verbatim>\<open>np.array(signal, dtype=float)\<close> on a list of numbers, and \<^verbatim>\<open>signal.copy()\<close>.\<close>

definition np_array :: "real list \<Rightarrow> world \<Rightarrow> addr \<times> world" where
  "np_array xs w = alloc xs w"

definition np_copy :: "addr \<Rightarrow> world \<Rightarrow> addr \<times> world" where
  "np_copy r w = alloc (deref w r) w"

subsection \<open>Python's truth value, float() and true division\<close>

text \<open>An \<^verbatim>\<open>Optional[str]\<close> is true when it is a non-empty string.\<close>

definition truthy :: "string option \<Rightarrow> bool" where
  "truthy s = (case s of None \<Rightarrow> False | Some t \<Rightarrow> t \<noteq> [])"

text \<open>\<^verbatim>\<open>float(None)\<close> raises \<^verbatim>\<open>TypeError\<close>; on a string the builtin decides.\<close>

definition py_float :: "pylib \<Rightarrow> string option \<Rightarrow> exn + pyfloat" where
  "py_float L s = (case s of None \<Rightarrow> Inl TypeError | Some t \<Rightarrow> float_of_str L t)"

text \<open>\<^verbatim>\<open>a / b\<close> on floats: a zero divisor raises, whatever the dividend is.\<close>

definition truediv :: "pylib \<Rightarrow> pyfloat \<Rightarrow> pyfloat \<Rightarrow> exn + pyfloat" where
  "truediv L a b =
     (if b = Fin 0 then Inl ZeroDivisionError else Inr (fl_div (round_double L) a b))"

section \<open>The three stages\<close>

text \<open>
  Each stage is a guard on the selector followed by a \<^verbatim>\<open>try\<close> block with a handler
  \<^verbatim>\<open>except Exception\<close>. The \<^verbatim>\<open>try\<close> block is a function of its own (\<open>_try\<close>) that
  returns \<open>Inl e\<close> where the block raises; the stage is the guard and the handler. The
  warning is printed inside the block, the error message in the handler, outside it.
\<close>

definition ac_filter_try ::
  "pylib \<Rightarrow> addr \<Rightarrow> pyfloat \<Rightarrow> string option \<Rightarrow> world \<Rightarrow> exn + (addr \<times> world)" where
  "ac_filter_try L signal sampling_rate ac_filter w =
    (case py_float L ac_filter of
       Inl e \<Rightarrow> Inl e
     | Inr notch_freq \<Rightarrow>
        (case truediv L sampling_rate (Fin 2) of
           Inl e \<Rightarrow> Inl e
         | Inr nyquist \<Rightarrow>
            (let quality_factor = Fin 30
             in case truediv L notch_freq nyquist of
                  Inl e \<Rightarrow> Inl e
                | Inr w0 \<Rightarrow>
                   if fl_le w0 (Fin 0) \<or> fl_le (Fin 1) w0
                   then (case print (Invalid_frequency AC notch_freq sampling_rate) w of
                           Inl e \<Rightarrow> Inl e
                         | Inr w' \<Rightarrow> Inr (signal, w'))
                   else (case iirnotch L w0 quality_factor of
                           Inl e \<Rightarrow> Inl e
                         | Inr (b, a) \<Rightarrow>
                            (case filtfilt L b a (deref w signal) of
                               Inl e \<Rightarrow> Inl e
                             | Inr filtered_signal \<Rightarrow> Inr (alloc filtered_signal w))))))"

definition apply_ac_filter ::
  "pylib \<Rightarrow> addr \<Rightarrow> pyfloat \<Rightarrow> string option \<Rightarrow> world \<Rightarrow> exn + (addr \<times> world)" where
  "apply_ac_filter L signal sampling_rate ac_filter w =
    (if ac_filter = Some ''off'' \<or> \<not> truthy ac_filter then Inr (signal, w)
     else (case ac_filter_try L signal sampling_rate ac_filter w of
             Inr res \<Rightarrow> Inr res
           | Inl e \<Rightarrow>
              (case print (Error_applying AC ac_filter e) w of
                 Inl e' \<Rightarrow> Inl e'
               | Inr w' \<Rightarrow> Inr (signal, w'))))"

definition emg_filter_try ::
  "pylib \<Rightarrow> addr \<Rightarrow> pyfloat \<Rightarrow> string option \<Rightarrow> world \<Rightarrow> exn + (addr \<times> world)" where
  "emg_filter_try L signal sampling_rate emg_filter w =
    (case py_float L emg_filter of
       Inl e \<Rightarrow> Inl e
     | Inr cutoff_freq \<Rightarrow>
        (case truediv L sampling_rate (Fin 2) of
           Inl e \<Rightarrow> Inl e
         | Inr nyquist \<Rightarrow>
            (case truediv L cutoff_freq nyquist of
               Inl e \<Rightarrow> Inl e
             | Inr normalized_cutoff \<Rightarrow>
                if fl_le normalized_cutoff (Fin 0) \<or> fl_le (Fin 1) normalized_cutoff
                then (case print (Invalid_frequency EMG cutoff_freq sampling_rate) w of
                        Inl e \<Rightarrow> Inl e
                      | Inr w' \<Rightarrow> Inr (signal, w'))
                else (case butter L 4 normalized_cutoff ''high'' of
                        Inl e \<Rightarrow> Inl e
                      | Inr (b, a) \<Rightarrow>
                         (case filtfilt L b a (deref w signal) of
                            Inl e \<Rightarrow> Inl e
                          | Inr filtered_signal \<Rightarrow> Inr (alloc filtered_signal w))))))"

definition apply_emg_filter ::
  "pylib \<Rightarrow> addr \<Rightarrow> pyfloat \<Rightarrow> string option \<Rightarrow> world \<Rightarrow> exn + (addr \<times> world)" where
  "apply_emg_filter L signal sampling_rate emg_filter w =
    (if \<not> truthy emg_filter \<or> emg_filter = Some ''off'' then Inr (signal, w)
     else (case emg_filter_try L signal sampling_rate emg_filter w of
             Inr res \<Rightarrow> Inr res
           | Inl e \<Rightarrow>
              (case print (Error_applying EMG emg_filter e) w of
                 Inl e' \<Rightarrow> Inl e'
               | Inr w' \<Rightarrow> Inr (signal, w'))))"

definition dft_filter_try ::
  "pylib \<Rightarrow> addr \<Rightarrow> pyfloat \<Rightarrow> string option \<Rightarrow> world \<Rightarrow> exn + (addr \<times> world)" where
  "dft_filter_try L signal sampling_rate dft_filter w =
    (case py_float L dft_filter of
       Inl e \<Rightarrow> Inl e
     | Inr cutoff_freq \<Rightarrow>
        (case truediv L sampling_rate (Fin 2) of
           Inl e \<Rightarrow> Inl e
         | Inr nyquist \<Rightarrow>
            (case truediv L cutoff_freq nyquist of
               Inl e \<Rightarrow> Inl e
             | Inr normalized_cutoff \<Rightarrow>
                if fl_le normalized_cutoff (Fin 0) \<or> fl_le (Fin 1) normalized_cutoff
                then (case print (Invalid_frequency DFT cutoff_freq sampling_rate) w of
                        Inl e \<Rightarrow> Inl e
                      | Inr w' \<Rightarrow> Inr (signal, w'))
                else (case butter L 2 normalized_cutoff ''high'' of
                        Inl e \<Rightarrow> Inl e
                      | Inr (b, a) \<Rightarrow>
                         (case filtfilt L b a (deref w signal) of
                            Inl e \<Rightarrow> Inl e
                          | Inr filtered_signal \<Rightarrow> Inr (alloc filtered_signal w))))))"

definition apply_dft_filter ::
  "pylib \<Rightarrow> addr \<Rightarrow> pyfloat \<Rightarrow> string option \<Rightarrow> world \<Rightarrow> exn + (addr \<times> world)" where
  "apply_dft_filter L signal sampling_rate dft_filter w =
    (if dft_filter = Some ''off'' \<or> \<not> truthy dft_filter then Inr (signal, w)
     else (case dft_filter_try L signal sampling_rate dft_filter w of
             Inr res \<Rightarrow> Inr res
           | Inl e \<Rightarrow>
              (case print (Error_applying DFT dft_filter e) w of
                 Inl e' \<Rightarrow> Inl e'
               | Inr w' \<Rightarrow> Inr (signal, w'))))"

section \<open>The orchestrator\<close>

text \<open>The first statement: a list becomes a new array, an array is taken as it is.\<close>

definition as_ndarray :: "signal_arg \<Rightarrow> world \<Rightarrow> addr \<times> world" where
  "as_ndarray signal_in w =
    (case signal_in of Ndarray r \<Rightarrow> (r, w) | Pylist xs \<Rightarrow> np_array xs w)"

definition apply_ecg_filters ::
  "pylib \<Rightarrow> signal_arg \<Rightarrow> pyfloat \<Rightarrow> string option \<Rightarrow> string option \<Rightarrow> string option
     \<Rightarrow> world \<Rightarrow> exn + (addr \<times> world)" where
  "apply_ecg_filters L signal_in sampling_rate ac_filter emg_filter dft_filter w =
    (case as_ndarray signal_in w of (signal, w1) \<Rightarrow>
       if length (deref w1 signal) < 10 then Inr (signal, w1)
       else (case np_copy signal w1 of (filtered0, w2) \<Rightarrow>
         (case (if truthy dft_filter
                then apply_dft_filter L filtered0 sampling_rate dft_filter w2
                else Inr (filtered0, w2)) of
            Inl e \<Rightarrow> Inl e
          | Inr (filtered1, w3) \<Rightarrow>
             (case (if truthy emg_filter
                    then apply_emg_filter L filtered1 sampling_rate emg_filter w3
                    else Inr (filtered1, w3)) of
                Inl e \<Rightarrow> Inl e
              | Inr (filtered2, w4) \<Rightarrow>
                 (if truthy ac_filter
                  then apply_ac_filter L filtered2 sampling_rate ac_filter w4
                  else Inr (filtered2, w4))))))"

text \<open>The samples the caller passes in, and whether an array argument exists.\<close>

definition arg_contents :: "world \<Rightarrow> signal_arg \<Rightarrow> buffer" where
  "arg_contents w signal_in =
    (case signal_in of Ndarray r \<Rightarrow> deref w r | Pylist xs \<Rightarrow> xs)"

definition valid_arg :: "world \<Rightarrow> signal_arg \<Rightarrow> bool" where
  "valid_arg w signal_in =
    (case signal_in of Ndarray r \<Rightarrow> r < length (heap w) | Pylist xs \<Rightarrow> True)"

section \<open>The pipeline as the specification words it\<close>

text \<open>
  The specification describes the orchestrator as a composition: DFT first, then EMG,
  then AC, each stage skipped when its selector is absent (\<^verbatim>\<open>None\<close> or the empty
  string) and otherwise run on the buffer the stage before it returned. The three
  definitions below follow these words; they are compared with \<open>apply_ecg_filters\<close>
  further down.
\<close>

type_synonym stage_fun = "addr \<Rightarrow> world \<Rightarrow> exn + (addr \<times> world)"

definition skip_if_absent :: "string option \<Rightarrow> stage_fun \<Rightarrow> stage_fun" where
  "skip_if_absent sel f r w =
     (case sel of None \<Rightarrow> Inr (r, w) | Some s \<Rightarrow> if s = [] then Inr (r, w) else f r w)"

definition then_stage :: "stage_fun \<Rightarrow> stage_fun \<Rightarrow> stage_fun" where
  "then_stage f g r w = (case f r w of Inl e \<Rightarrow> Inl e | Inr (r', w') \<Rightarrow> g r' w')"

definition spec_pipeline ::
  "pylib \<Rightarrow> pyfloat \<Rightarrow> string option \<Rightarrow> string option \<Rightarrow> string option \<Rightarrow> stage_fun" where
  "spec_pipeline L rate ac emg dft =
     then_stage
       (then_stage (skip_if_absent dft (\<lambda>r. apply_dft_filter L r rate dft))
                   (skip_if_absent emg (\<lambda>r. apply_emg_filter L r rate emg)))
       (skip_if_absent ac (\<lambda>r. apply_ac_filter L r rate ac))"

section \<open>Properties of the imported functions\<close>

text \<open>
  The property of \<^verbatim>\<open>scipy.signal.filtfilt\<close> that the length claim rests on: its output
  has the shape of its input.
\<close>

definition keeps_length :: "pylib \<Rightarrow> bool" where
  "keeps_length L = (\<forall>b a xs ys. filtfilt L b a xs = Inr ys \<longrightarrow> length ys = length xs)"

text \<open>
  The property of float division that the sign argument for a sampling rate of at most 0
  rests on: rounding keeps a quotient of at most 0 at most 0 and a quotient of at least 1
  at least 1 (IEEE rounding is monotone, and 0 and 1 are floats).
\<close>

definition rounding_keeps_order :: "pylib \<Rightarrow> bool" where
  "rounding_keeps_order L =
     (\<forall>x. (x \<le> 0 \<longrightarrow> fl_le (round_double L x) (Fin 0))
        \<and> (1 \<le> x \<longrightarrow> fl_le (Fin 1) (round_double L x)))"

text \<open>
  For a Nyquist frequency of at most 0: the selector's frequency \<open>f\<close> is not strictly
  between the Nyquist frequency and 0, and their quotient is a number. That is: the
  Nyquist frequency is 0; or it is negative and finite and \<open>f\<close> is at least 0 or at
  most the Nyquist frequency; or it is minus infinity and \<open>f\<close> is finite.
\<close>

definition outside_band :: "pyfloat \<Rightarrow> pyfloat \<Rightarrow> bool" where
  "outside_band nyquist f =
     (case nyquist of
        Fin y \<Rightarrow> y = 0 \<or> fl_le (Fin 0) f \<or> fl_le f (Fin y)
      | MInf \<Rightarrow> (case f of Fin z \<Rightarrow> True | _ \<Rightarrow> False)
      | _ \<Rightarrow> False)"

section \<open>Auxiliary notions for the proofs\<close>

text \<open>
  What every stage does to the store: it raises only when a message is rejected by the
  output stream; otherwise it returns its argument and allocates nothing, or it returns
  a new array, the output of \<open>filtfilt\<close> on the argument's samples.
\<close>

definition stage_post :: "pylib \<Rightarrow> addr \<Rightarrow> world \<Rightarrow> exn + (addr \<times> world) \<Rightarrow> bool" where
  "stage_post L r w res =
    (case res of
       Inl e \<Rightarrow> (\<exists>d. rejects w d \<noteq> None)
     | Inr (r', w') \<Rightarrow>
         rejects w' = rejects w \<and>
         ((r' = r \<and> heap w' = heap w) \<or>
          (\<exists>b a ys. filtfilt L b a (deref w r) = Inr ys \<and> r' = length (heap w)
             \<and> heap w' = heap w @ [ys])))"

definition step_ok :: "pylib \<Rightarrow> addr \<Rightarrow> world \<Rightarrow> addr \<Rightarrow> world \<Rightarrow> bool" where
  "step_ok L r w r' w' =
     (r' < length (heap w') \<and> (\<exists>zs. heap w' = heap w @ zs)
      \<and> (r' = r \<or> length (heap w) \<le> r')
      \<and> rejects w' = rejects w
      \<and> (keeps_length L \<longrightarrow> length (deref w' r') = length (deref w r)))"

text \<open>
  The three guarded calls of the orchestrator, from the copy onwards.
\<close>

definition filter_chain ::
  "pylib \<Rightarrow> pyfloat \<Rightarrow> string option \<Rightarrow> string option \<Rightarrow> string option
     \<Rightarrow> addr \<Rightarrow> world \<Rightarrow> exn + (addr \<times> world)" where
  "filter_chain L sampling_rate ac_filter emg_filter dft_filter filtered0 w2 =
     (case (if truthy dft_filter
            then apply_dft_filter L filtered0 sampling_rate dft_filter w2
            else Inr (filtered0, w2)) of
        Inl e \<Rightarrow> Inl e
      | Inr (filtered1, w3) \<Rightarrow>
         (case (if truthy emg_filter
                then apply_emg_filter L filtered1 sampling_rate emg_filter w3
                else Inr (filtered1, w3)) of
            Inl e \<Rightarrow> Inl e
          | Inr (filtered2, w4) \<Rightarrow>
             (if truthy ac_filter
              then apply_ac_filter L filtered2 sampling_rate ac_filter w4
              else Inr (filtered2, w4))))"

section \<open>A small library and two stores for the examples\<close>

text \<open>
  The examples below run the model on a stand-in for the imported functions.
  \<open>demo_float\<close> is \<^verbatim>\<open>float\<close> on the selector strings the module documents and on
  \<^verbatim>\<open>-50\<close>; any other string is reported as a \<^verbatim>\<open>ValueError\<close>. Division is exact
  on the values used. The two design functions return coefficient arrays of the lengths
  scipy returns (three for the notch, order plus one for Butterworth) and raise outside
  the open interval from 0 to 1, as scipy does. \<open>filtfilt\<close> raises when the input is no
  longer than the padding, three times the longer coefficient array, as scipy does;
  otherwise it subtracts the first sample from every sample, a stand-in for a high-pass
  response that keeps the length. The general theorems do not depend on this library:
  they hold for every \<open>pylib\<close>.

  \<open>demo_world\<close> holds a 16-sample and a 3-sample array and an output stream that
  accepts every message; \<open>ascii_world\<close> holds the same arrays and a stream that cannot
  encode the messages.
\<close>

definition demo_float :: "string \<Rightarrow> exn + pyfloat" where
  "demo_float s =
     (case map_of [(''0.05'', 1 / 20), (''0.5'', 1 / 2), (''25'', 25), (''35'', 35),
                   (''45'', 45), (''50'', 50), (''60'', 60), (''75'', 75), (''100'', 100),
                   (''150'', 150), (''-50'', - 50)] s of
        None \<Rightarrow> Inl ValueError
      | Some x \<Rightarrow> Inr (Fin x))"

definition demo_design :: "nat \<Rightarrow> pyfloat \<Rightarrow> exn + coeffs" where
  "demo_design n wn =
     (case wn of
        Fin x \<Rightarrow> if 0 < x \<and> x < 1 then Inr (replicate (Suc n) x, replicate (Suc n) 1)
                 else Inl ValueError
      | _ \<Rightarrow> Inl ValueError)"

definition demo_lib :: pylib where
  "demo_lib =
     \<lparr> float_of_str = demo_float,
       round_double = Fin,
       iirnotch = (\<lambda>w0 q. demo_design 2 w0),
       butter = (\<lambda>n wn btype. demo_design n wn),
       filtfilt = (\<lambda>b a x. if length x \<le> 3 * max (length a) (length b) then Inl ValueError
                            else Inr (map (\<lambda>v. v - hd x) x)) \<rparr>"

definition ramp :: buffer where
  "ramp = [1, 2, 3, 4, 5, 6, 7, 8, 9, 10, 11, 12, 13, 14, 15, 16]"

definition twelve :: buffer where
  "twelve = [1, 2, 3, 4, 5, 6, 7, 8, 9, 10, 11, 12]"

definition demo_world :: world where
  "demo_world = \<lparr> heap = [ramp, [1, 2, 3]], stdout = [], rejects = (\<lambda>d. None) \<rparr>"

definition ascii_world :: world where
  "ascii_world =
     \<lparr> heap = [ramp, [1, 2, 3]], stdout = [], rejects = (\<lambda>d. Some UnicodeEncodeError) \<rparr>"

section \<open>Lemmas about the store and the stages\<close>

lemmas demo_defs =
  demo_lib_def demo_float_def demo_design_def demo_world_def ascii_world_def ramp_def

lemmas eval_defs =
  apply_ac_filter_def ac_filter_try_def apply_emg_filter_def emg_filter_try_def
  apply_dft_filter_def dft_filter_try_def py_float_def truthy_def truediv_def
  alloc_def print_def deref_def np_copy_def np_array_def as_ndarray_def
  arg_contents_def valid_arg_def

lemma keeps_length_demo_lib: "keeps_length demo_lib"
  by (auto simp: keeps_length_def demo_lib_def split: if_splits)

lemma rounding_keeps_order_demo_lib: "rounding_keeps_order demo_lib"
  by (simp add: rounding_keeps_order_def demo_lib_def)

lemma as_ndarray_contents:
  "as_ndarray s w = (r, w') \<Longrightarrow> deref w' r = arg_contents w s"
  by (auto simp: as_ndarray_def np_array_def arg_contents_def alloc_def deref_def
           split: signal_arg.splits)

lemma as_ndarray_valid:
  "as_ndarray s w = (r, w') \<Longrightarrow> valid_arg w s \<Longrightarrow>
     r < length (heap w') \<and> (\<exists>zs. heap w' = heap w @ zs) \<and> stdout w' = stdout w
     \<and> rejects w' = rejects w"
  by (auto simp: as_ndarray_def np_array_def valid_arg_def alloc_def split: signal_arg.splits)

lemma as_ndarray_rejects: "as_ndarray s w = (r, w') \<Longrightarrow> rejects w' = rejects w"
  by (auto simp: as_ndarray_def np_array_def alloc_def split: signal_arg.splits)

lemma np_copy_props:
  assumes "np_copy r w = (c, w')" and "r < length (heap w)"
  shows "c = length (heap w)" and "heap w' = heap w @ [deref w r]"
    and "deref w' c = deref w r" and "c < length (heap w')" and "stdout w' = stdout w"
  using assms by (auto simp: np_copy_def alloc_def deref_def)

lemma np_copy_valid:
  "np_copy r w = (c, w') \<Longrightarrow> c < length (heap w') \<and> rejects w' = rejects w"
  by (auto simp: np_copy_def alloc_def)

subsection \<open>What a stage returns, and when it raises\<close>

lemma apply_ac_filter_post: "stage_post L r w (apply_ac_filter L r rate sel w)"
  unfolding stage_post_def apply_ac_filter_def ac_filter_try_def
  by (auto simp: alloc_def print_def Let_def split: sum.splits prod.splits if_splits option.splits)

lemma apply_emg_filter_post: "stage_post L r w (apply_emg_filter L r rate sel w)"
  unfolding stage_post_def apply_emg_filter_def emg_filter_try_def
  by (auto simp: alloc_def print_def Let_def split: sum.splits prod.splits if_splits option.splits)

lemma apply_dft_filter_post: "stage_post L r w (apply_dft_filter L r rate sel w)"
  unfolding stage_post_def apply_dft_filter_def dft_filter_try_def
  by (auto simp: alloc_def print_def Let_def split: sum.splits prod.splits if_splits option.splits)

lemma stage_post_skip: "stage_post L r w (Inr (r, w))"
  by (simp add: stage_post_def)

lemma stage_post_step:
  assumes "stage_post L r w res" and "r < length (heap w)" and "res = Inr (r', w')"
  shows "step_ok L r w r' w'"
  using assms unfolding stage_post_def step_ok_def keeps_length_def deref_def
  by (auto simp: nth_append)

lemma stage_post_returns:
  assumes "stage_post L r w res" and "\<forall>d. rejects w d = None"
  shows "\<exists>r' w'. res = Inr (r', w')"
  using assms unfolding stage_post_def by (cases res) auto

lemma step_ok_trans:
  assumes "step_ok L r w r1 w1" and "step_ok L r1 w1 r2 w2"
  shows "step_ok L r w r2 w2"
  using assms unfolding step_ok_def by auto

lemma apply_ecg_filters_chain:
  "apply_ecg_filters L signal_in rate ac emg dft w =
    (case as_ndarray signal_in w of (signal, w1) \<Rightarrow>
       if length (deref w1 signal) < 10 then Inr (signal, w1)
       else (case np_copy signal w1 of (filtered0, w2) \<Rightarrow>
               filter_chain L rate ac emg dft filtered0 w2))"
  unfolding apply_ecg_filters_def filter_chain_def by (rule refl)

lemma guarded_dft_post:
  "stage_post L r w (if truthy dft then apply_dft_filter L r rate dft w else Inr (r, w))"
  by (simp add: apply_dft_filter_post stage_post_skip)

lemma guarded_emg_post:
  "stage_post L r w (if truthy emg then apply_emg_filter L r rate emg w else Inr (r, w))"
  by (simp add: apply_emg_filter_post stage_post_skip)

lemma guarded_ac_post:
  "stage_post L r w (if truthy ac then apply_ac_filter L r rate ac w else Inr (r, w))"
  by (simp add: apply_ac_filter_post stage_post_skip)

lemma filter_chain_step:
  assumes v: "r < length (heap w)"
    and c: "filter_chain L rate ac emg dft r w = Inr (r3, w3)"
  shows "step_ok L r w r3 w3"
proof -
  from c obtain r1 w1 where
    d: "(if truthy dft then apply_dft_filter L r rate dft w else Inr (r, w)) = Inr (r1, w1)"
    unfolding filter_chain_def by (auto split: sum.splits)
  from c d obtain r2 w2 where
    e: "(if truthy emg then apply_emg_filter L r1 rate emg w1 else Inr (r1, w1)) = Inr (r2, w2)"
    unfolding filter_chain_def by (auto split: sum.splits)
  from c d e have
    a: "(if truthy ac then apply_ac_filter L r2 rate ac w2 else Inr (r2, w2)) = Inr (r3, w3)"
    unfolding filter_chain_def by simp
  have s1: "step_ok L r w r1 w1"
    using guarded_dft_post v d by (rule stage_post_step)
  then have v1: "r1 < length (heap w1)" by (simp add: step_ok_def)
  have s2: "step_ok L r1 w1 r2 w2"
    using guarded_emg_post v1 e by (rule stage_post_step)
  then have v2: "r2 < length (heap w2)" by (simp add: step_ok_def)
  have s3: "step_ok L r2 w2 r3 w3"
    using guarded_ac_post v2 a by (rule stage_post_step)
  from s1 s2 s3 show ?thesis by (blast intro: step_ok_trans)
qed

lemma filter_chain_returns:
  assumes v: "r < length (heap w)" and p: "\<forall>d. rejects w d = None"
  shows "\<exists>r' w'. filter_chain L rate ac emg dft r w = Inr (r', w')"
proof -
  from stage_post_returns [OF guarded_dft_post p] obtain r1 w1 where
    d: "(if truthy dft then apply_dft_filter L r rate dft w else Inr (r, w)) = Inr (r1, w1)"
    by blast
  have s1: "step_ok L r w r1 w1"
    using guarded_dft_post v d by (rule stage_post_step)
  then have v1: "r1 < length (heap w1)" and p1: "\<forall>d. rejects w1 d = None"
    using p by (simp_all add: step_ok_def)
  from stage_post_returns [OF guarded_emg_post p1] obtain r2 w2 where
    e: "(if truthy emg then apply_emg_filter L r1 rate emg w1 else Inr (r1, w1)) = Inr (r2, w2)"
    by blast
  have s2: "step_ok L r1 w1 r2 w2"
    using guarded_emg_post v1 e by (rule stage_post_step)
  then have p2: "\<forall>d. rejects w2 d = None" using p1 by (simp add: step_ok_def)
  from stage_post_returns [OF guarded_ac_post p2] obtain r3 w3 where
    a: "(if truthy ac then apply_ac_filter L r2 rate ac w2 else Inr (r2, w2)) = Inr (r3, w3)"
    by blast
  have "filter_chain L rate ac emg dft r w = Inr (r3, w3)"
    unfolding filter_chain_def d using e a by simp
  then show ?thesis by blast
qed

lemma apply_ecg_filters_returns:
  assumes "\<forall>d. rejects w d = None"
  shows "\<exists>r' w'. apply_ecg_filters L signal_in rate ac emg dft w = Inr (r', w')"
proof -
  obtain a u where a: "as_ndarray signal_in w = (a, u)" by (cases "as_ndarray signal_in w")
  obtain b x where b: "np_copy a u = (b, x)" by (cases "np_copy a u")
  have "b < length (heap x)" and "\<forall>d. rejects x d = None"
    using np_copy_valid [OF b] as_ndarray_rejects [OF a] assms by simp_all
  from filter_chain_returns [OF this, of L rate ac emg dft]
  obtain r' w' where "filter_chain L rate ac emg dft b x = Inr (r', w')" by blast
  then show ?thesis
    using a b by (simp add: apply_ecg_filters_chain)
qed

subsection \<open>Selectors that switch a stage off, and the handlers\<close>

lemma skip_if_absent_truthy:
  "skip_if_absent sel f r w = (if truthy sel then f r w else Inr (r, w))"
  by (simp add: skip_if_absent_def truthy_def split: option.splits)

lemma off_or_absent_ac:
  "sel = Some ''off'' \<or> \<not> truthy sel \<Longrightarrow> apply_ac_filter L r rate sel w = Inr (r, w)"
  by (auto simp: apply_ac_filter_def)

lemma off_or_absent_emg:
  "sel = Some ''off'' \<or> \<not> truthy sel \<Longrightarrow> apply_emg_filter L r rate sel w = Inr (r, w)"
  by (auto simp: apply_emg_filter_def)

lemma off_or_absent_dft:
  "sel = Some ''off'' \<or> \<not> truthy sel \<Longrightarrow> apply_dft_filter L r rate sel w = Inr (r, w)"
  by (auto simp: apply_dft_filter_def)

lemma filter_chain_off:
  "filter_chain L rate (Some ''off'') (Some ''off'') (Some ''off'') r w = Inr (r, w)"
  by (simp add: filter_chain_def off_or_absent_ac off_or_absent_emg off_or_absent_dft)

lemma handler_result:
  "(case print d w of Inl e' \<Rightarrow> Inl e' | Inr w' \<Rightarrow> Inr (r, w')) =
     (case rejects w d of None \<Rightarrow> Inr (r, w\<lparr>stdout := stdout w @ [d]\<rparr>)
      | Some e' \<Rightarrow> Inl e')"
  by (simp add: print_def split: option.splits)

lemma ac_handler:
  "ac_filter_try L r rate sel w = Inl e \<Longrightarrow> sel \<noteq> Some ''off'' \<Longrightarrow> truthy sel \<Longrightarrow>
   apply_ac_filter L r rate sel w =
     (case rejects w (Error_applying AC sel e) of
        None \<Rightarrow> Inr (r, w\<lparr>stdout := stdout w @ [Error_applying AC sel e]\<rparr>)
      | Some e' \<Rightarrow> Inl e')"
  by (simp add: apply_ac_filter_def handler_result)

lemma emg_handler:
  "emg_filter_try L r rate sel w = Inl e \<Longrightarrow> sel \<noteq> Some ''off'' \<Longrightarrow> truthy sel \<Longrightarrow>
   apply_emg_filter L r rate sel w =
     (case rejects w (Error_applying EMG sel e) of
        None \<Rightarrow> Inr (r, w\<lparr>stdout := stdout w @ [Error_applying EMG sel e]\<rparr>)
      | Some e' \<Rightarrow> Inl e')"
  by (simp add: apply_emg_filter_def handler_result)

lemma dft_handler:
  "dft_filter_try L r rate sel w = Inl e \<Longrightarrow> sel \<noteq> Some ''off'' \<Longrightarrow> truthy sel \<Longrightarrow>
   apply_dft_filter L r rate sel w =
     (case rejects w (Error_applying DFT sel e) of
        None \<Rightarrow> Inr (r, w\<lparr>stdout := stdout w @ [Error_applying DFT sel e]\<rparr>)
      | Some e' \<Rightarrow> Inl e')"
  by (simp add: apply_dft_filter_def handler_result)

lemma unparsable_try:
  "py_float L sel = Inl e \<Longrightarrow>
     ac_filter_try L r rate sel w = Inl e \<and> emg_filter_try L r rate sel w = Inl e
     \<and> dft_filter_try L r rate sel w = Inl e"
  by (simp add: ac_filter_try_def emg_filter_try_def dft_filter_try_def)

subsection \<open>The quotient for a sampling rate of at most 0\<close>

lemma nyquist_of_nonpositive_rate:
  assumes "rounding_keeps_order L" and "fl_le rate (Fin 0)"
    and "truediv L rate (Fin 2) = Inr nyquist"
  shows "nyquist = MInf \<or> (\<exists>y. nyquist = Fin y \<and> y \<le> 0)"
proof (cases rate)
  case (Fin x)
  with assms(2) have "x / 2 \<le> 0" by simp
  with assms(1) have "fl_le (round_double L (x / 2)) (Fin 0)"
    by (simp add: rounding_keeps_order_def)
  moreover from assms(3) Fin have "nyquist = round_double L (x / 2)"
    by (simp add: truediv_def)
  ultimately have "fl_le nyquist (Fin 0)" by simp
  then show ?thesis by (cases nyquist) simp_all
next
  case MInf
  with assms(3) show ?thesis by (simp add: truediv_def)
next
  case PInf
  with assms(2) show ?thesis by simp
next
  case NaN
  with assms(2) show ?thesis by simp
qed

lemma quotient_outside_band:
  assumes "rounding_keeps_order L"
    and "nyquist = MInf \<or> (\<exists>y. nyquist = Fin y \<and> y < 0)"
    and "outside_band nyquist f"
  shows "\<exists>q. truediv L f nyquist = Inr q \<and> (fl_le q (Fin 0) \<or> fl_le (Fin 1) q)"
proof (cases nyquist)
  case (Fin y)
  with assms(2) have y: "y < 0" by simp
  from assms(3) Fin y have band: "fl_le (Fin 0) f \<or> fl_le f (Fin y)"
    by (simp add: outside_band_def)
  show ?thesis
  proof (cases f)
    case (Fin z)
    from band Fin have "0 \<le> z \<or> z \<le> y" by simp
    then have "z / y \<le> 0 \<or> 1 \<le> z / y"
      using y by (auto simp: divide_nonneg_neg le_divide_eq)
    with assms(1) have "fl_le (round_double L (z / y)) (Fin 0)
        \<or> fl_le (Fin 1) (round_double L (z / y))"
      by (auto simp: rounding_keeps_order_def)
    with Fin \<open>nyquist = Fin y\<close> y show ?thesis by (simp add: truediv_def)
  next
    case PInf
    with \<open>nyquist = Fin y\<close> y show ?thesis by (simp add: truediv_def)
  next
    case MInf
    with \<open>nyquist = Fin y\<close> y show ?thesis by (simp add: truediv_def)
  next
    case NaN
    with band show ?thesis by simp
  qed
next
  case MInf
  with assms(3) show ?thesis
    by (cases f) (simp_all add: outside_band_def truediv_def)
next
  case PInf
  with assms(2) show ?thesis by simp
next
  case NaN
  with assms(2) show ?thesis by simp
qed

section \<open>The claims\<close>

subsection \<open>C1: the order of the stages\<close>

text \<open>
  C1. For an input of at least 10 samples, \<open>apply_ecg_filters\<close> is the composition of
  the three stages in the order DFT, EMG, AC, run on a copy of the input: a stage whose
  selector is absent (\<^verbatim>\<open>None\<close> or empty) is skipped, and each stage that runs
  receives the buffer returned by the one before it.
\<close>

theorem apply_ecg_filters_composition:
  assumes "10 \<le> length (arg_contents w signal_in)"
  shows "apply_ecg_filters L signal_in rate ac emg dft w =
          (case as_ndarray signal_in w of (signal, w1) \<Rightarrow>
             (case np_copy signal w1 of (filtered, w2) \<Rightarrow>
                spec_pipeline L rate ac emg dft filtered w2))"
proof -
  obtain signal w1 where a: "as_ndarray signal_in w = (signal, w1)"
    by (cases "as_ndarray signal_in w")
  obtain filtered w2 where c: "np_copy signal w1 = (filtered, w2)"
    by (cases "np_copy signal w1")
  from a assms have "\<not> length (deref w1 signal) < 10"
    by (simp add: as_ndarray_contents)
  then show ?thesis
    by (simp add: apply_ecg_filters_def a c spec_pipeline_def then_stage_def
          skip_if_absent_truthy split: sum.splits)
qed

text \<open>
  The composition at a 16-sample array with the DFT and AC stages on and EMG absent.
\<close>

theorem apply_ecg_filters_composition_witness:
  "10 \<le> length (arg_contents demo_world (Ndarray 0))
   \<and> apply_ecg_filters demo_lib (Ndarray 0) (Fin 500) (Some ''50'') None (Some ''0.5'')
        demo_world =
       (case as_ndarray (Ndarray 0) demo_world of (signal, w1) \<Rightarrow>
          (case np_copy signal w1 of (filtered, w2) \<Rightarrow>
             spec_pipeline demo_lib (Fin 500) (Some ''50'') None (Some ''0.5'') filtered w2))"
proof -
  have h: "10 \<le> length (arg_contents demo_world (Ndarray 0))"
    by (simp add: arg_contents_def deref_def demo_world_def ramp_def)
  from h apply_ecg_filters_composition [OF h] show ?thesis by blast
qed

subsection \<open>C2: short inputs\<close>

text \<open>
  C2. For an input of fewer than 10 samples, \<open>apply_ecg_filters\<close> returns the
  (coerced) input itself whatever the sampling rate and the selectors are: the samples
  are the caller's, nothing is printed, and an array argument is returned as the very
  same object in an unchanged store.
\<close>

theorem short_signal_unchanged:
  assumes "length (arg_contents w signal_in) < 10"
  shows "apply_ecg_filters L signal_in rate ac emg dft w = Inr (as_ndarray signal_in w)
       \<and> deref (snd (as_ndarray signal_in w)) (fst (as_ndarray signal_in w))
           = arg_contents w signal_in
       \<and> stdout (snd (as_ndarray signal_in w)) = stdout w
       \<and> (signal_in = Ndarray r \<longrightarrow>
            apply_ecg_filters L signal_in rate ac emg dft w = Inr (r, w))"
proof -
  obtain a u where a: "as_ndarray signal_in w = (a, u)" by (cases "as_ndarray signal_in w")
  have c: "deref u a = arg_contents w signal_in" using a by (rule as_ndarray_contents)
  have "stdout u = stdout w"
    using a by (auto simp: as_ndarray_def np_array_def alloc_def split: signal_arg.splits)
  moreover have "apply_ecg_filters L signal_in rate ac emg dft w = Inr (a, u)"
    using assms a c by (simp add: apply_ecg_filters_chain)
  ultimately show ?thesis using a c by (auto simp: as_ndarray_def)
qed

text \<open>
  A 3-sample array with all three stages switched on comes back as it is.
\<close>

theorem short_signal_unchanged_witness:
  "length (arg_contents demo_world (Ndarray 1)) < 10
   \<and> apply_ecg_filters demo_lib (Ndarray 1) (Fin 500) (Some ''50'') (Some ''150'')
        (Some ''0.5'') demo_world = Inr (1, demo_world)"
proof -
  have h: "length (arg_contents demo_world (Ndarray 1)) < 10"
    by (simp add: arg_contents_def deref_def demo_world_def)
  from h short_signal_unchanged [OF h, of demo_lib "Fin 500" "Some ''50''" "Some ''150''"
      "Some ''0.5''" 1]
  show ?thesis by blast
qed

subsection \<open>C3: the identity law\<close>

text \<open>
  C3. With all three selectors \<^verbatim>\<open>off\<close>, \<open>apply_ecg_filters\<close> returns a buffer
  holding the input's samples, for every input and sampling rate, and prints nothing; and
  each stage on its own returns its argument, in an unchanged store, when its selector is
  \<^verbatim>\<open>off\<close>, \<^verbatim>\<open>None\<close> or the empty string.
\<close>

theorem off_is_identity:
  "(\<exists>r' w'. apply_ecg_filters L signal_in rate (Some ''off'') (Some ''off'') (Some ''off'') w
               = Inr (r', w')
            \<and> deref w' r' = arg_contents w signal_in \<and> stdout w' = stdout w)
   \<and> (sel = Some ''off'' \<or> sel = None \<or> sel = Some [] \<longrightarrow>
         apply_ac_filter L r rate sel w = Inr (r, w)
       \<and> apply_emg_filter L r rate sel w = Inr (r, w)
       \<and> apply_dft_filter L r rate sel w = Inr (r, w))"
proof -
  obtain a u where a: "as_ndarray signal_in w = (a, u)" by (cases "as_ndarray signal_in w")
  have c: "deref u a = arg_contents w signal_in" using a by (rule as_ndarray_contents)
  have s: "stdout u = stdout w"
    using a by (auto simp: as_ndarray_def np_array_def alloc_def split: signal_arg.splits)
  obtain b x where b: "np_copy a u = (b, x)" by (cases "np_copy a u")
  have "deref x b = deref u a" and "stdout x = stdout u"
    using b by (auto simp: np_copy_def alloc_def deref_def)
  then have "\<exists>r' w'. apply_ecg_filters L signal_in rate (Some ''off'') (Some ''off'')
                 (Some ''off'') w = Inr (r', w')
            \<and> deref w' r' = arg_contents w signal_in \<and> stdout w' = stdout w"
    using a b c s by (simp add: apply_ecg_filters_chain filter_chain_off)
  moreover have "sel = Some ''off'' \<or> sel = None \<or> sel = Some [] \<Longrightarrow>
         apply_ac_filter L r rate sel w = Inr (r, w)
       \<and> apply_emg_filter L r rate sel w = Inr (r, w)
       \<and> apply_dft_filter L r rate sel w = Inr (r, w)"
    by (auto simp: off_or_absent_ac off_or_absent_emg off_or_absent_dft truthy_def)
  ultimately show ?thesis by blast
qed

text \<open>
  The law at the 16-sample array, and the three stages at an absent selector.
\<close>

theorem off_is_identity_witness:
  "(\<exists>r' w'. apply_ecg_filters demo_lib (Ndarray 0) (Fin 500) (Some ''off'') (Some ''off'')
               (Some ''off'') demo_world = Inr (r', w')
            \<and> deref w' r' = ramp \<and> stdout w' = [])
   \<and> apply_ac_filter demo_lib 0 (Fin 500) None demo_world = Inr (0, demo_world)
   \<and> apply_emg_filter demo_lib 0 (Fin 500) None demo_world = Inr (0, demo_world)
   \<and> apply_dft_filter demo_lib 0 (Fin 500) None demo_world = Inr (0, demo_world)"
  using off_is_identity [of demo_lib "Ndarray 0" "Fin 500" demo_world None 0]
  by (simp add: arg_contents_def deref_def demo_world_def)

subsection \<open>C4: a frequency outside the valid range\<close>

text \<open>
  C4 on the code. In each of the three stages, when the selector parses to a frequency
  \<open>f\<close> and the computed quotient of \<open>f\<close> by the Nyquist frequency is at most 0 or at
  least 1, the stage prints the invalid-frequency warning. When the output stream accepts
  the warning, the stage returns its argument (the same object, no array allocated) and
  the warning is the one message added to the output. When the stream rejects it, the
  \<^verbatim>\<open>print\<close> raises inside the \<^verbatim>\<open>try\<close> block, the handler prints its error message,
  and when the stream rejects that too the exception leaves the stage: the stage raises
  to its caller.
\<close>

theorem out_of_range_frequency_outcome:
  assumes "float_of_str L s = Inr f" and "s \<noteq> ''off''" and "s \<noteq> []"
    and "truediv L rate (Fin 2) = Inr nyquist" and "truediv L f nyquist = Inr w0"
    and "fl_le w0 (Fin 0) \<or> fl_le (Fin 1) w0"
  shows "apply_ac_filter L r rate (Some s) w =
           (case rejects w (Invalid_frequency AC f rate) of
              None \<Rightarrow> Inr (r, w\<lparr>stdout := stdout w @ [Invalid_frequency AC f rate]\<rparr>)
            | Some e \<Rightarrow>
               (case rejects w (Error_applying AC (Some s) e) of
                  None \<Rightarrow> Inr (r, w\<lparr>stdout := stdout w @ [Error_applying AC (Some s) e]\<rparr>)
                | Some e' \<Rightarrow> Inl e'))
       \<and> apply_emg_filter L r rate (Some s) w =
           (case rejects w (Invalid_frequency EMG f rate) of
              None \<Rightarrow> Inr (r, w\<lparr>stdout := stdout w @ [Invalid_frequency EMG f rate]\<rparr>)
            | Some e \<Rightarrow>
               (case rejects w (Error_applying EMG (Some s) e) of
                  None \<Rightarrow> Inr (r, w\<lparr>stdout := stdout w @ [Error_applying EMG (Some s) e]\<rparr>)
                | Some e' \<Rightarrow> Inl e'))
       \<and> apply_dft_filter L r rate (Some s) w =
           (case rejects w (Invalid_frequency DFT f rate) of
              None \<Rightarrow> Inr (r, w\<lparr>stdout := stdout w @ [Invalid_frequency DFT f rate]\<rparr>)
            | Some e \<Rightarrow>
               (case rejects w (Error_applying DFT (Some s) e) of
                  None \<Rightarrow> Inr (r, w\<lparr>stdout := stdout w @ [Error_applying DFT (Some s) e]\<rparr>)
                | Some e' \<Rightarrow> Inl e'))"
  using assms
  by (auto simp: apply_ac_filter_def ac_filter_try_def apply_emg_filter_def emg_filter_try_def
        apply_dft_filter_def dft_filter_try_def py_float_def truthy_def print_def
      split: option.splits)

text \<open>
  The specification's example, 60 Hz at a sampling rate of 100 Hz: on a stream that
  cannot encode the messages every stage raises \<^verbatim>\<open>UnicodeEncodeError\<close>; on a stream
  that can, the stage returns its argument and the warning is printed.
\<close>

theorem out_of_range_frequency_outcome_witness:
  "float_of_str demo_lib ''60'' = Inr (Fin 60)
   \<and> truediv demo_lib (Fin 100) (Fin 2) = Inr (Fin 50)
   \<and> truediv demo_lib (Fin 60) (Fin 50) = Inr (Fin (6 / 5))
   \<and> fl_le (Fin 1) (Fin (6 / 5))
   \<and> apply_ac_filter demo_lib 0 (Fin 100) (Some ''60'') ascii_world = Inl UnicodeEncodeError
   \<and> apply_emg_filter demo_lib 0 (Fin 100) (Some ''60'') ascii_world = Inl UnicodeEncodeError
   \<and> apply_dft_filter demo_lib 0 (Fin 100) (Some ''60'') ascii_world = Inl UnicodeEncodeError
   \<and> apply_ac_filter demo_lib 0 (Fin 100) (Some ''60'') demo_world
       = Inr (0, \<lparr>heap = [ramp, [1, 2, 3]],
                  stdout = [Invalid_frequency AC (Fin 60) (Fin 100)], rejects = (\<lambda>d. None)\<rparr>)"
proof -
  have 1: "float_of_str demo_lib ''60'' = Inr (Fin 60)" by (simp add: demo_defs)
  have 2: "truediv demo_lib (Fin 100) (Fin 2) = Inr (Fin 50)"
    by (simp add: truediv_def demo_lib_def)
  have 3: "truediv demo_lib (Fin 60) (Fin 50) = Inr (Fin (6 / 5))"
    by (simp add: truediv_def demo_lib_def)
  have 4: "fl_le (Fin 1) (Fin (6 / 5))" by simp
  have 5: "fl_le (Fin (6 / 5)) (Fin 0) \<or> fl_le (Fin 1) (Fin (6 / 5))" by simp
  from 1 2 3 4 out_of_range_frequency_outcome [OF 1 _ _ 2 3 5, of 0 ascii_world]
    out_of_range_frequency_outcome [OF 1 _ _ 2 3 5, of 0 demo_world]
  show ?thesis by (simp add: ascii_world_def demo_world_def)
qed

subsection \<open>C5: failures inside a stage\<close>

text \<open>
  C5 on the code. Whatever the \<^verbatim>\<open>try\<close> block of a stage raises is caught by that
  stage's handler, which prints the error message; a selector that \<^verbatim>\<open>float\<close> rejects
  makes the block raise, so it is one of these cases. When the output stream accepts the
  message, the stage returns its argument. When the stream rejects it, the handler's
  \<^verbatim>\<open>print\<close>, which is outside the \<^verbatim>\<open>try\<close> block, raises, and the exception leaves
  the stage and \<open>apply_ecg_filters\<close>. On a stream that accepts every message each
  stage and \<open>apply_ecg_filters\<close> return a result, for every library, input, sampling
  rate and selectors.
\<close>

theorem stage_failure_outcome:
  assumes "sel \<noteq> Some ''off''" and "truthy sel"
  shows "(ac_filter_try L r rate sel w = Inl e \<longrightarrow>
            apply_ac_filter L r rate sel w =
              (case rejects w (Error_applying AC sel e) of
                 None \<Rightarrow> Inr (r, w\<lparr>stdout := stdout w @ [Error_applying AC sel e]\<rparr>)
               | Some e' \<Rightarrow> Inl e'))
       \<and> (emg_filter_try L r rate sel w = Inl e \<longrightarrow>
            apply_emg_filter L r rate sel w =
              (case rejects w (Error_applying EMG sel e) of
                 None \<Rightarrow> Inr (r, w\<lparr>stdout := stdout w @ [Error_applying EMG sel e]\<rparr>)
               | Some e' \<Rightarrow> Inl e'))
       \<and> (dft_filter_try L r rate sel w = Inl e \<longrightarrow>
            apply_dft_filter L r rate sel w =
              (case rejects w (Error_applying DFT sel e) of
                 None \<Rightarrow> Inr (r, w\<lparr>stdout := stdout w @ [Error_applying DFT sel e]\<rparr>)
               | Some e' \<Rightarrow> Inl e'))
       \<and> (py_float L sel = Inl e \<longrightarrow>
            ac_filter_try L r rate sel w = Inl e \<and> emg_filter_try L r rate sel w = Inl e
            \<and> dft_filter_try L r rate sel w = Inl e)
       \<and> ((\<forall>d. rejects w d = None) \<longrightarrow>
            (\<exists>r' w'. apply_ac_filter L r rate sel w = Inr (r', w'))
          \<and> (\<exists>r' w'. apply_emg_filter L r rate sel w = Inr (r', w'))
          \<and> (\<exists>r' w'. apply_dft_filter L r rate sel w = Inr (r', w'))
          \<and> (\<exists>r' w'. apply_ecg_filters L signal_in rate ac emg dft w = Inr (r', w')))"
  using assms ac_handler [of L r rate sel w e] emg_handler [of L r rate sel w e]
    dft_handler [of L r rate sel w e] unparsable_try [of L sel e r rate w]
    apply_ecg_filters_returns [of w L signal_in rate ac emg dft]
    stage_post_returns [OF apply_ac_filter_post, of w L r rate sel]
    stage_post_returns [OF apply_emg_filter_post, of w L r rate sel]
    stage_post_returns [OF apply_dft_filter_post, of w L r rate sel]
  by blast

text \<open>
  The selector \<^verbatim>\<open>abc\<close> does not parse. On a stream that cannot encode the error
  message each stage, and \<open>apply_ecg_filters\<close> with it, raises
  \<^verbatim>\<open>UnicodeEncodeError\<close>; on a stream that can, the stage returns its argument.
\<close>

theorem stage_failure_outcome_witness:
  "py_float demo_lib (Some ''abc'') = Inl ValueError
   \<and> apply_ac_filter demo_lib 0 (Fin 500) (Some ''abc'') ascii_world = Inl UnicodeEncodeError
   \<and> apply_emg_filter demo_lib 0 (Fin 500) (Some ''abc'') ascii_world = Inl UnicodeEncodeError
   \<and> apply_dft_filter demo_lib 0 (Fin 500) (Some ''abc'') ascii_world = Inl UnicodeEncodeError
   \<and> apply_ecg_filters demo_lib (Ndarray 0) (Fin 500) (Some ''abc'') None None ascii_world
       = Inl UnicodeEncodeError
   \<and> apply_ac_filter demo_lib 0 (Fin 500) (Some ''abc'') demo_world
       = Inr (0, \<lparr>heap = [ramp, [1, 2, 3]],
                  stdout = [Error_applying AC (Some ''abc'') ValueError], rejects = (\<lambda>d. None)\<rparr>)"
proof -
  have 1: "py_float demo_lib (Some ''abc'') = Inl ValueError"
    by (simp add: py_float_def demo_lib_def demo_float_def)
  have 2: "Some ''abc'' \<noteq> Some ''off''" and 3: "truthy (Some ''abc'')"
    by (simp_all add: truthy_def)
  have 4: "apply_ecg_filters demo_lib (Ndarray 0) (Fin 500) (Some ''abc'') None None
       ascii_world = Inl UnicodeEncodeError"
    by (simp add: apply_ecg_filters_def eval_defs demo_defs)
  from 1 4 stage_failure_outcome [OF 2 3, of demo_lib 0 "Fin 500" ascii_world ValueError]
    stage_failure_outcome [OF 2 3, of demo_lib 0 "Fin 500" demo_world ValueError]
  show ?thesis by (simp add: ascii_world_def demo_world_def)
qed

subsection \<open>C6: the length of the output\<close>

text \<open>
  C6. Every buffer \<open>apply_ecg_filters\<close> returns has as many samples as the input, for
  every input, sampling rate and selectors, given that \<open>filtfilt\<close> returns an array of
  its input's length (as scipy's does); and it does return a buffer whenever the output
  stream accepts every message.
\<close>

theorem output_length_is_input_length:
  assumes "keeps_length L" and "valid_arg w signal_in"
  shows "((\<forall>d. rejects w d = None) \<longrightarrow>
            (\<exists>r' w'. apply_ecg_filters L signal_in rate ac emg dft w = Inr (r', w')))
       \<and> (\<forall>r' w'. apply_ecg_filters L signal_in rate ac emg dft w = Inr (r', w') \<longrightarrow>
            length (deref w' r') = length (arg_contents w signal_in))"
proof -
  obtain a u where a: "as_ndarray signal_in w = (a, u)" by (cases "as_ndarray signal_in w")
  have c: "deref u a = arg_contents w signal_in" using a by (rule as_ndarray_contents)
  have v: "a < length (heap u)" using as_ndarray_valid [OF a assms(2)] by simp
  have "length (deref w' r') = length (arg_contents w signal_in)"
    if res: "apply_ecg_filters L signal_in rate ac emg dft w = Inr (r', w')" for r' w'
  proof (cases "length (deref u a) < 10")
    case True
    then show ?thesis using a c res by (auto simp: apply_ecg_filters_chain)
  next
    case False
    obtain b x where b: "np_copy a u = (b, x)" by (cases "np_copy a u")
    have bv: "b < length (heap x)" and bc: "deref x b = deref u a"
      using np_copy_props [OF b v] by simp_all
    have "filter_chain L rate ac emg dft b x = Inr (r', w')"
      using res False a b by (simp add: apply_ecg_filters_chain)
    with bv have "step_ok L b x r' w'" by (rule filter_chain_step)
    with assms(1) have "length (deref w' r') = length (deref x b)"
      by (simp add: step_ok_def)
    then show ?thesis using c bc by simp
  qed
  with apply_ecg_filters_returns [of w L signal_in rate ac emg dft] show ?thesis by blast
qed

text \<open>
  Sixteen samples in, sixteen samples out, with all three stages on.
\<close>

theorem output_length_is_input_length_witness:
  "keeps_length demo_lib \<and> valid_arg demo_world (Ndarray 0)
   \<and> (\<forall>d. rejects demo_world d = None)
   \<and> (\<exists>r' w'. apply_ecg_filters demo_lib (Ndarray 0) (Fin 500) (Some ''50'') (Some ''150'')
                 (Some ''0.5'') demo_world = Inr (r', w')
             \<and> length (deref w' r') = 16)"
proof -
  have v: "valid_arg demo_world (Ndarray 0)" by (simp add: valid_arg_def demo_world_def)
  have e: "\<forall>d. rejects demo_world d = None" by (simp add: demo_world_def)
  have "length (arg_contents demo_world (Ndarray 0)) = 16"
    by (simp add: arg_contents_def deref_def demo_world_def ramp_def)
  with v e keeps_length_demo_lib
    output_length_is_input_length [OF keeps_length_demo_lib v, of "Fin 500" "Some ''50''"
      "Some ''150''" "Some ''0.5''"]
  show ?thesis by auto
qed

subsection \<open>C7: the caller's buffer\<close>

text \<open>
  C7, as the code has it. \<open>apply_ecg_filters\<close> never changes an array that existed
  before the call: the store only grows at its end, so the caller's buffer holds its
  samples afterwards. The returned buffer is a new object when the input has at least 10
  samples or is a list. An array argument of fewer than 10 samples is returned itself.
\<close>

theorem input_not_mutated_and_result_fresh:
  assumes "valid_arg w signal_in"
    and "apply_ecg_filters L signal_in rate ac emg dft w = Inr (r', w')"
  shows "(\<exists>zs. heap w' = heap w @ zs)
       \<and> (\<forall>a < length (heap w). deref w' a = deref w a)
       \<and> (10 \<le> length (arg_contents w signal_in) \<longrightarrow> length (heap w) \<le> r')
       \<and> ((\<exists>xs. signal_in = Pylist xs) \<longrightarrow> length (heap w) \<le> r')
       \<and> (length (arg_contents w signal_in) < 10 \<longrightarrow> signal_in = Ndarray r \<longrightarrow> r' = r)"
proof -
  obtain a u where a: "as_ndarray signal_in w = (a, u)" by (cases "as_ndarray signal_in w")
  have c: "deref u a = arg_contents w signal_in" using a by (rule as_ndarray_contents)
  have v: "a < length (heap u)" and p: "\<exists>zs. heap u = heap w @ zs"
    using as_ndarray_valid [OF a assms(1)] by simp_all
  have fresh_list: "(\<exists>xs. signal_in = Pylist xs) \<Longrightarrow> length (heap w) \<le> a"
    using a by (auto simp: as_ndarray_def np_array_def alloc_def)
  have same_arr: "signal_in = Ndarray r \<Longrightarrow> a = r"
    using a by (simp add: as_ndarray_def)
  have main: "(\<exists>zs. heap w' = heap w @ zs)
      \<and> (10 \<le> length (arg_contents w signal_in) \<longrightarrow> length (heap w) \<le> r')
      \<and> ((\<exists>xs. signal_in = Pylist xs) \<longrightarrow> length (heap w) \<le> r')
      \<and> (length (arg_contents w signal_in) < 10 \<longrightarrow> signal_in = Ndarray r \<longrightarrow> r' = r)"
  proof (cases "length (deref u a) < 10")
    case True
    then have "r' = a" and "w' = u"
      using assms(2) a by (simp_all add: apply_ecg_filters_chain)
    then show ?thesis using p c True fresh_list same_arr by auto
  next
    case False
    obtain b x where b: "np_copy a u = (b, x)" by (cases "np_copy a u")
    have bv: "b < length (heap x)" and bh: "heap x = heap u @ [deref u a]"
      and bl: "b = length (heap u)"
      using np_copy_props [OF b v] by simp_all
    have "filter_chain L rate ac emg dft b x = Inr (r', w')"
      using assms(2) False a b by (simp add: apply_ecg_filters_chain)
    with bv have s': "step_ok L b x r' w'" by (rule filter_chain_step)
    from s' obtain zs where "heap w' = heap x @ zs" by (auto simp: step_ok_def)
    with bh p have "\<exists>zs. heap w' = heap w @ zs" by auto
    moreover from s' bl bh p have "length (heap w) \<le> r'" by (auto simp: step_ok_def)
    ultimately show ?thesis using False c by simp
  qed
  then obtain zs where "heap w' = heap w @ zs" by blast
  then have "\<forall>a < length (heap w). deref w' a = deref w a"
    by (simp add: deref_def nth_append)
  with main show ?thesis by blast
qed

text \<open>
  A run on the 16-sample array at address 0: the result is the new array at address 4
  and the array at address 0 holds its samples.
\<close>

theorem input_not_mutated_and_result_fresh_witness:
  "valid_arg demo_world (Ndarray 0)
   \<and> apply_ecg_filters demo_lib (Ndarray 0) (Fin 500) (Some ''50'') None (Some ''0.5'')
        demo_world
       = Inr (4, \<lparr>heap = [ramp, [1, 2, 3], ramp,
                          [0, 1, 2, 3, 4, 5, 6, 7, 8, 9, 10, 11, 12, 13, 14, 15],
                          [0, 1, 2, 3, 4, 5, 6, 7, 8, 9, 10, 11, 12, 13, 14, 15]],
                  stdout = [], rejects = (\<lambda>d. None)\<rparr>)
   \<and> deref \<lparr>heap = [ramp, [1, 2, 3], ramp,
                   [0, 1, 2, 3, 4, 5, 6, 7, 8, 9, 10, 11, 12, 13, 14, 15],
                   [0, 1, 2, 3, 4, 5, 6, 7, 8, 9, 10, 11, 12, 13, 14, 15]],
             stdout = [], rejects = (\<lambda>d. None)\<rparr> 0 = deref demo_world 0
   \<and> length (heap demo_world) \<le> 4"
proof -
  have v: "valid_arg demo_world (Ndarray 0)" by (simp add: valid_arg_def demo_world_def)
  have e: "apply_ecg_filters demo_lib (Ndarray 0) (Fin 500) (Some ''50'') None (Some ''0.5'')
       demo_world
       = Inr (4, \<lparr>heap = [ramp, [1, 2, 3], ramp,
                          [0, 1, 2, 3, 4, 5, 6, 7, 8, 9, 10, 11, 12, 13, 14, 15],
                          [0, 1, 2, 3, 4, 5, 6, 7, 8, 9, 10, 11, 12, 13, 14, 15]],
                  stdout = [], rejects = (\<lambda>d. None)\<rparr>)"
    by (simp add: apply_ecg_filters_def eval_defs demo_defs numeral_eq_Suc)
  have l: "10 \<le> length (arg_contents demo_world (Ndarray 0))"
    by (simp add: arg_contents_def deref_def demo_world_def ramp_def)
  from input_not_mutated_and_result_fresh [OF v e] l v e
  show ?thesis by (simp add: demo_world_def)
qed

text \<open>
  C7 as stated fails: for the 3-sample array at address 1 the returned object is the
  array at address 1, the caller's own object, not a new buffer.
\<close>

theorem short_ndarray_is_returned_itself:
  "apply_ecg_filters demo_lib (Ndarray 1) (Fin 500) (Some ''50'') (Some ''150'') (Some ''0.5'')
     demo_world = Inr (1, demo_world)"
  by (simp add: apply_ecg_filters_def as_ndarray_def deref_def demo_world_def)

subsection \<open>C9: the filters the EMG and DFT stages design\<close>

text \<open>
  C9, as the code has it. When the selector parses to a frequency whose computed
  quotient \<open>wn\<close> by the Nyquist frequency passes the range guard (it is neither at most
  0 nor at least 1), the EMG stage calls \<open>butter\<close> with order 4, \<open>wn\<close> and
  \<^verbatim>\<open>high\<close>, the DFT stage calls it with order 2, \<open>wn\<close> and \<^verbatim>\<open>high\<close>, and each
  calls \<open>filtfilt\<close> (zero-phase, forward and backward) on its input with the designed
  coefficients. When both calls succeed the stage returns a new array holding
  \<open>filtfilt\<close>'s output and prints nothing. When either call raises, the handler takes
  over: given that its message can be printed, the stage returns its argument and the
  error is the one message added to the output.
\<close>

theorem butterworth_design_then_filtfilt:
  assumes "float_of_str L s = Inr f" and "s \<noteq> ''off''" and "s \<noteq> []"
    and "truediv L rate (Fin 2) = Inr nyquist" and "truediv L f nyquist = Inr wn"
    and "\<not> fl_le wn (Fin 0)" and "\<not> fl_le (Fin 1) wn"
  shows "(butter L 4 wn ''high'' = Inr (b, a) \<and> filtfilt L b a (deref w r) = Inr ys \<longrightarrow>
            apply_emg_filter L r rate (Some s) w
              = Inr (length (heap w), w\<lparr>heap := heap w @ [ys]\<rparr>))
       \<and> (rejects w (Error_applying EMG (Some s) e) = None
            \<and> (butter L 4 wn ''high'' = Inl e
              \<or> butter L 4 wn ''high'' = Inr (b, a) \<and> filtfilt L b a (deref w r) = Inl e) \<longrightarrow>
            apply_emg_filter L r rate (Some s) w
              = Inr (r, w\<lparr>stdout := stdout w @ [Error_applying EMG (Some s) e]\<rparr>))
       \<and> (butter L 2 wn ''high'' = Inr (b, a) \<and> filtfilt L b a (deref w r) = Inr ys \<longrightarrow>
            apply_dft_filter L r rate (Some s) w
              = Inr (length (heap w), w\<lparr>heap := heap w @ [ys]\<rparr>))
       \<and> (rejects w (Error_applying DFT (Some s) e) = None
            \<and> (butter L 2 wn ''high'' = Inl e
              \<or> butter L 2 wn ''high'' = Inr (b, a) \<and> filtfilt L b a (deref w r) = Inl e) \<longrightarrow>
            apply_dft_filter L r rate (Some s) w
              = Inr (r, w\<lparr>stdout := stdout w @ [Error_applying DFT (Some s) e]\<rparr>))"
  using assms
  by (auto simp: apply_emg_filter_def emg_filter_try_def apply_dft_filter_def
        dft_filter_try_def py_float_def truthy_def alloc_def print_def)

text \<open>
  Both stages at 150 Hz and a sampling rate of 500 Hz on the 16-sample array, and the
  DFT stage on the 3-sample array, where \<open>filtfilt\<close> raises.
\<close>

theorem butterworth_design_then_filtfilt_witness:
  "float_of_str demo_lib ''150'' = Inr (Fin 150)
   \<and> truediv demo_lib (Fin 500) (Fin 2) = Inr (Fin 250)
   \<and> truediv demo_lib (Fin 150) (Fin 250) = Inr (Fin (3 / 5))
   \<and> \<not> fl_le (Fin (3 / 5)) (Fin 0) \<and> \<not> fl_le (Fin 1) (Fin (3 / 5))
   \<and> butter demo_lib 4 (Fin (3 / 5)) ''high''
        = Inr ([3 / 5, 3 / 5, 3 / 5, 3 / 5, 3 / 5], [1, 1, 1, 1, 1])
   \<and> filtfilt demo_lib [3 / 5, 3 / 5, 3 / 5, 3 / 5, 3 / 5] [1, 1, 1, 1, 1] (deref demo_world 0)
        = Inr [0, 1, 2, 3, 4, 5, 6, 7, 8, 9, 10, 11, 12, 13, 14, 15]
   \<and> apply_emg_filter demo_lib 0 (Fin 500) (Some ''150'') demo_world
        = Inr (2, \<lparr>heap = [ramp, [1, 2, 3],
                           [0, 1, 2, 3, 4, 5, 6, 7, 8, 9, 10, 11, 12, 13, 14, 15]],
                   stdout = [], rejects = (\<lambda>d. None)\<rparr>)
   \<and> butter demo_lib 2 (Fin (3 / 5)) ''high'' = Inr ([3 / 5, 3 / 5, 3 / 5], [1, 1, 1])
   \<and> filtfilt demo_lib [3 / 5, 3 / 5, 3 / 5] [1, 1, 1] (deref demo_world 0)
        = Inr [0, 1, 2, 3, 4, 5, 6, 7, 8, 9, 10, 11, 12, 13, 14, 15]
   \<and> apply_dft_filter demo_lib 0 (Fin 500) (Some ''150'') demo_world
        = Inr (2, \<lparr>heap = [ramp, [1, 2, 3],
                           [0, 1, 2, 3, 4, 5, 6, 7, 8, 9, 10, 11, 12, 13, 14, 15]],
                   stdout = [], rejects = (\<lambda>d. None)\<rparr>)
   \<and> filtfilt demo_lib [3 / 5, 3 / 5, 3 / 5] [1, 1, 1] (deref demo_world 1) = Inl ValueError
   \<and> apply_dft_filter demo_lib 1 (Fin 500) (Some ''150'') demo_world
        = Inr (1, \<lparr>heap = [ramp, [1, 2, 3]],
                   stdout = [Error_applying DFT (Some ''150'') ValueError],
                   rejects = (\<lambda>d. None)\<rparr>)"
proof -
  have 1: "float_of_str demo_lib ''150'' = Inr (Fin 150)" by (simp add: demo_defs)
  have 2: "truediv demo_lib (Fin 500) (Fin 2) = Inr (Fin 250)"
    by (simp add: truediv_def demo_lib_def)
  have 3: "truediv demo_lib (Fin 150) (Fin 250) = Inr (Fin (3 / 5))"
    by (simp add: truediv_def demo_lib_def)
  have 4: "\<not> fl_le (Fin (3 / 5)) (Fin 0)" and 5: "\<not> fl_le (Fin 1) (Fin (3 / 5))"
    by simp_all
  have 6: "butter demo_lib 4 (Fin (3 / 5)) ''high''
        = Inr ([3 / 5, 3 / 5, 3 / 5, 3 / 5, 3 / 5], [1, 1, 1, 1, 1])"
    by (simp add: demo_defs numeral_eq_Suc)
  have 7: "filtfilt demo_lib [3 / 5, 3 / 5, 3 / 5, 3 / 5, 3 / 5] [1, 1, 1, 1, 1]
             (deref demo_world 0)
        = Inr [0, 1, 2, 3, 4, 5, 6, 7, 8, 9, 10, 11, 12, 13, 14, 15]"
    by (simp add: demo_defs deref_def)
  have 8: "butter demo_lib 2 (Fin (3 / 5)) ''high'' = Inr ([3 / 5, 3 / 5, 3 / 5], [1, 1, 1])"
    by (simp add: demo_defs numeral_eq_Suc)
  have 9: "filtfilt demo_lib [3 / 5, 3 / 5, 3 / 5] [1, 1, 1] (deref demo_world 0)
        = Inr [0, 1, 2, 3, 4, 5, 6, 7, 8, 9, 10, 11, 12, 13, 14, 15]"
    by (simp add: demo_defs deref_def)
  have 10: "filtfilt demo_lib [3 / 5, 3 / 5, 3 / 5] [1, 1, 1] (deref demo_world 1)
        = Inl ValueError"
    by (simp add: demo_defs deref_def)
  have 11: "rejects demo_world (Error_applying DFT (Some ''150'') ValueError) = None"
    by (simp add: demo_world_def)
  from butterworth_design_then_filtfilt [OF 1 _ _ 2 3 4 5,
      of "[3 / 5, 3 / 5, 3 / 5]" "[1, 1, 1]" demo_world 1 _ ValueError]
    butterworth_design_then_filtfilt [OF 1 _ _ 2 3 4 5,
      of "[3 / 5, 3 / 5, 3 / 5, 3 / 5, 3 / 5]" "[1, 1, 1, 1, 1]" demo_world 0
         "[0, 1, 2, 3, 4, 5, 6, 7, 8, 9, 10, 11, 12, 13, 14, 15]"]
    butterworth_design_then_filtfilt [OF 1 _ _ 2 3 4 5,
      of "[3 / 5, 3 / 5, 3 / 5]" "[1, 1, 1]" demo_world 0
         "[0, 1, 2, 3, 4, 5, 6, 7, 8, 9, 10, 11, 12, 13, 14, 15]"]
    1 2 3 4 5 6 7 8 9 10 11
  show ?thesis by (simp add: demo_world_def)
qed

text \<open>
  C9 as stated fails: with the valid selector 150 Hz at 500 Hz (quotient 3/5) and a
  12-sample input, \<open>filtfilt\<close> rejects the input (it is not longer than the padding of
  15 for five coefficients), the EMG stage returns its argument with the error message,
  and \<open>apply_ecg_filters\<close> returns a copy of the input: no filter is applied.
\<close>

theorem emg_short_input_not_filtered:
  "float_of_str demo_lib ''150'' = Inr (Fin 150)
   \<and> truediv demo_lib (Fin 150) (Fin 250) = Inr (Fin (3 / 5))
   \<and> apply_emg_filter demo_lib 0 (Fin 500) (Some ''150'')
        \<lparr>heap = [twelve], stdout = [], rejects = (\<lambda>d. None)\<rparr>
       = Inr (0, \<lparr>heap = [twelve],
                  stdout = [Error_applying EMG (Some ''150'') ValueError], rejects = (\<lambda>d. None)\<rparr>)
   \<and> apply_ecg_filters demo_lib (Ndarray 0) (Fin 500) None (Some ''150'') None
        \<lparr>heap = [twelve], stdout = [], rejects = (\<lambda>d. None)\<rparr>
       = Inr (1, \<lparr>heap = [twelve, twelve],
                  stdout = [Error_applying EMG (Some ''150'') ValueError], rejects = (\<lambda>d. None)\<rparr>)"
  by (simp add: apply_ecg_filters_def eval_defs demo_defs twelve_def numeral_eq_Suc)

subsection \<open>C10: a sampling rate that is not positive\<close>

text \<open>
  C10, as the code has it. For a sampling rate of at most 0 and a selector that parses
  to a frequency \<open>f\<close> that is not strictly between the Nyquist frequency and 0 (see
  \<open>outside_band\<close>), each stage returns its argument and raises nothing, given that the
  output stream accepts the message: when the Nyquist frequency is 0 the division raises
  \<^verbatim>\<open>ZeroDivisionError\<close>, which the handler catches and prints; otherwise the quotient
  is at most 0 (for \<open>f\<close> at least 0) or at least 1 (for \<open>f\<close> at most the negative
  Nyquist frequency) and the range guard prints its warning.
\<close>

theorem nonpositive_rate_outside_band_skips:
  assumes "rounding_keeps_order L" and "fl_le rate (Fin 0)"
    and "float_of_str L s = Inr f" and "s \<noteq> ''off''" and "s \<noteq> []"
    and "truediv L rate (Fin 2) = Inr nyquist" and "outside_band nyquist f"
    and "\<forall>st. rejects w (if nyquist = Fin 0
                           then Error_applying st (Some s) ZeroDivisionError
                           else Invalid_frequency st f rate) = None"
  shows "apply_ac_filter L r rate (Some s) w =
           Inr (r, w\<lparr>stdout := stdout w @
                  [if nyquist = Fin 0 then Error_applying AC (Some s) ZeroDivisionError
                   else Invalid_frequency AC f rate]\<rparr>)
       \<and> apply_emg_filter L r rate (Some s) w =
           Inr (r, w\<lparr>stdout := stdout w @
                  [if nyquist = Fin 0 then Error_applying EMG (Some s) ZeroDivisionError
                   else Invalid_frequency EMG f rate]\<rparr>)
       \<and> apply_dft_filter L r rate (Some s) w =
           Inr (r, w\<lparr>stdout := stdout w @
                  [if nyquist = Fin 0 then Error_applying DFT (Some s) ZeroDivisionError
                   else Invalid_frequency DFT f rate]\<rparr>)"
proof (cases "nyquist = Fin 0")
  case True
  then have "truediv L f nyquist = Inl ZeroDivisionError" by (simp add: truediv_def)
  with assms True show ?thesis
    by (simp add: apply_ac_filter_def ac_filter_try_def apply_emg_filter_def emg_filter_try_def
        apply_dft_filter_def dft_filter_try_def py_float_def truthy_def print_def)
next
  case False
  from nyquist_of_nonpositive_rate [OF assms(1,2,6)] False
  have "nyquist = MInf \<or> (\<exists>y. nyquist = Fin y \<and> y < 0)" by auto
  from quotient_outside_band [OF assms(1) this assms(7)] obtain q where
    "truediv L f nyquist = Inr q" and "fl_le q (Fin 0) \<or> fl_le (Fin 1) q" by blast
  with assms False show ?thesis
    by (auto simp: apply_ac_filter_def ac_filter_try_def apply_emg_filter_def emg_filter_try_def
        apply_dft_filter_def dft_filter_try_def py_float_def truthy_def print_def)
qed

text \<open>
  50 Hz at a sampling rate of -500 Hz (quotient -1/5), -50 Hz at the rate 0 (division
  by zero), and -50 Hz at a sampling rate of -50 Hz (quotient 2).
\<close>

theorem nonpositive_rate_outside_band_skips_witness:
  "rounding_keeps_order demo_lib \<and> (\<forall>d. rejects demo_world d = None)
   \<and> float_of_str demo_lib ''50'' = Inr (Fin 50)
   \<and> float_of_str demo_lib ''-50'' = Inr (Fin (- 50))
   \<and> fl_le (Fin (- 500)) (Fin 0) \<and> fl_le (Fin 0) (Fin 0) \<and> fl_le (Fin (- 50)) (Fin 0)
   \<and> truediv demo_lib (Fin (- 500)) (Fin 2) = Inr (Fin (- 250))
   \<and> outside_band (Fin (- 250)) (Fin 50)
   \<and> apply_ac_filter demo_lib 0 (Fin (- 500)) (Some ''50'') demo_world
        = Inr (0, \<lparr>heap = [ramp, [1, 2, 3]],
                   stdout = [Invalid_frequency AC (Fin 50) (Fin (- 500))], rejects = (\<lambda>d. None)\<rparr>)
   \<and> truediv demo_lib (Fin 0) (Fin 2) = Inr (Fin 0)
   \<and> outside_band (Fin 0) (Fin (- 50))
   \<and> apply_dft_filter demo_lib 0 (Fin 0) (Some ''-50'') demo_world
        = Inr (0, \<lparr>heap = [ramp, [1, 2, 3]],
                   stdout = [Error_applying DFT (Some ''-50'') ZeroDivisionError],
                   rejects = (\<lambda>d. None)\<rparr>)
   \<and> truediv demo_lib (Fin (- 50)) (Fin 2) = Inr (Fin (- 25))
   \<and> outside_band (Fin (- 25)) (Fin (- 50))
   \<and> apply_emg_filter demo_lib 0 (Fin (- 50)) (Some ''-50'') demo_world
        = Inr (0, \<lparr>heap = [ramp, [1, 2, 3]],
                   stdout = [Invalid_frequency EMG (Fin (- 50)) (Fin (- 50))],
                   rejects = (\<lambda>d. None)\<rparr>)"
proof -
  note k = rounding_keeps_order_demo_lib
  have e: "\<forall>d. rejects demo_world d = None" by (simp add: demo_world_def)
  have p: "float_of_str demo_lib ''50'' = Inr (Fin 50)"
    and n: "float_of_str demo_lib ''-50'' = Inr (Fin (- 50))" by (simp_all add: demo_defs)
  have r1: "fl_le (Fin (- 500)) (Fin 0)" and r2: "fl_le (Fin 0) (Fin 0)"
    and r3: "fl_le (Fin (- 50)) (Fin 0)" by simp_all
  have n1: "truediv demo_lib (Fin (- 500)) (Fin 2) = Inr (Fin (- 250))"
    and n2: "truediv demo_lib (Fin 0) (Fin 2) = Inr (Fin 0)"
    and n3: "truediv demo_lib (Fin (- 50)) (Fin 2) = Inr (Fin (- 25))"
    by (simp_all add: truediv_def demo_lib_def)
  have b1: "outside_band (Fin (- 250)) (Fin 50)" and b2: "outside_band (Fin 0) (Fin (- 50))"
    and b3: "outside_band (Fin (- 25)) (Fin (- 50))" by (simp_all add: outside_band_def)
  from nonpositive_rate_outside_band_skips [OF k r1 p _ _ n1 b1, of demo_world 0]
    nonpositive_rate_outside_band_skips [OF k r2 n _ _ n2 b2, of demo_world 0]
    nonpositive_rate_outside_band_skips [OF k r3 n _ _ n3 b3, of demo_world 0]
    k e p n r1 r2 r3 n1 n2 n3 b1 b2 b3
  show ?thesis by (simp add: demo_world_def)
qed

text \<open>
  C10 as stated fails for a negative selector above the negative Nyquist frequency: at
  a sampling rate of -500 Hz and the selector \<^verbatim>\<open>-50\<close> the quotient is 1/5, the guard
  lets it pass, and every stage returns a new, filtered array (and prints nothing).
\<close>

theorem negative_rate_negative_selector_filters:
  "float_of_str demo_lib ''-50'' = Inr (Fin (- 50))
   \<and> truediv demo_lib (Fin (- 500)) (Fin 2) = Inr (Fin (- 250))
   \<and> truediv demo_lib (Fin (- 50)) (Fin (- 250)) = Inr (Fin (1 / 5))
   \<and> apply_dft_filter demo_lib 0 (Fin (- 500)) (Some ''-50'') demo_world
     = Inr (2, \<lparr>heap = [ramp, [1, 2, 3],
                        [0, 1, 2, 3, 4, 5, 6, 7, 8, 9, 10, 11, 12, 13, 14, 15]],
                stdout = [], rejects = (\<lambda>d. None)\<rparr>)
   \<and> apply_ac_filter demo_lib 0 (Fin (- 500)) (Some ''-50'') demo_world
     = Inr (2, \<lparr>heap = [ramp, [1, 2, 3],
                        [0, 1, 2, 3, 4, 5, 6, 7, 8, 9, 10, 11, 12, 13, 14, 15]],
                stdout = [], rejects = (\<lambda>d. None)\<rparr>)
   \<and> apply_emg_filter demo_lib 0 (Fin (- 500)) (Some ''-50'') demo_world
     = Inr (2, \<lparr>heap = [ramp, [1, 2, 3],
                        [0, 1, 2, 3, 4, 5, 6, 7, 8, 9, 10, 11, 12, 13, 14, 15]],
                stdout = [], rejects = (\<lambda>d. None)\<rparr>)
   \<and> deref demo_world 0 \<noteq> [0, 1, 2, 3, 4, 5, 6, 7, 8, 9, 10, 11, 12, 13, 14, 15]"
  by (simp add: eval_defs demo_defs numeral_eq_Suc)

end
